theory Spec2Isabelle
  imports Complex_Main
begin

section \<open>House mapper: the listing-to-map rendering pipeline\<close>

text \<open>
  The repository holds two variants of one Vue component. The first,
  \<^verbatim>\<open>src/components/HouseMap.vue\<close>, reads the nested listing shape (a record with
  a \<^verbatim>\<open>property\<close> field that carries the address parts and the coordinates); the
  second, \<^verbatim>\<open>unnamed/part_000\<close>, reads the flat shape (one free-text address) and
  resolves it through the geocoding service. Both are embedded here; where the two
  variants have a function of the same name, the definitions carry the suffixes
  \<open>_nested\<close> and \<open>_flat\<close>.

  JavaScript strings are modelled as \<^typ>\<open>string\<close>, one \<^typ>\<open>char\<close> per code unit
  below 256. A value that may be \<^verbatim>\<open>undefined\<close> or \<^verbatim>\<open>null\<close> is an
  \<^typ>\<open>'a option\<close>.
\<close>

subsection \<open>escapeHtml (HouseMap.vue, lines 83 to 94)\<close>

text \<open>
  \<^verbatim>\<open>str.replace(/c/g, r)\<close> for a pattern of one literal character: every
  occurrence of the character is replaced by the string \<open>r\<close>, left to right.
\<close>

definition replaceChar :: "char \<Rightarrow> string \<Rightarrow> string \<Rightarrow> string" where
  "replaceChar c r str = concat (map (\<lambda>x. if x = c then r else [x]) str)"

definition backslash :: char where "backslash = CHR 0x5C"
definition squote :: char where "squote = CHR 0x27"
definition dquote :: char where "dquote = CHR 0x22"
definition backtick :: char where "backtick = CHR 0x60"
definition newline :: char where "newline = CHR 0x0A"
definition creturn :: char where "creturn = CHR 0x0D"

text \<open>
  The eight replacements run in the order of the source. The last two replace
  each angle bracket by the same angle bracket, as lines 92 and 93 are written.
\<close>

definition escapeHtml :: "string option \<Rightarrow> string" where
  "escapeHtml str =
     (case str of
        None \<Rightarrow> ''No description available''
      | Some s \<Rightarrow>
          if s = [] then ''No description available''
          else
            replaceChar (CHR ''>'') ''>''
              (replaceChar (CHR ''<'') ''<''
                (replaceChar creturn []
                  (replaceChar newline '' ''
                    (replaceChar backtick [backslash, backtick]
                      (replaceChar dquote [backslash, dquote]
                        (replaceChar squote [backslash, squote]
                          (replaceChar backslash [backslash, backslash] s))))))))"

subsection \<open>normalizeAddress (part_000, lines 46 to 66)\<close>

text \<open>
  The word characters of a regular expression without the \<^verbatim>\<open>u\<close> flag are the
  ASCII letters, the digits and the underscore.
\<close>

definition isWordChar :: "char \<Rightarrow> bool" where
  "isWordChar c =
     (let n = (of_char c :: nat)
      in (48 \<le> n \<and> n \<le> 57) \<or> (65 \<le> n \<and> n \<le> 90) \<or> n = 95 \<or> (97 \<le> n \<and> n \<le> 122))"

text \<open>
  Under the \<^verbatim>\<open>i\<close> flag two code units match when their canonical forms are
  equal. The canonical form is the upper-case code unit; a code unit outside ASCII never
  canonicalizes to an ASCII one, so against the ASCII keys of the table only the ASCII
  letters need folding.
\<close>

definition canonicalize :: "char \<Rightarrow> nat" where
  "canonicalize c =
     (let n = (of_char c :: nat) in if 97 \<le> n \<and> n \<le> 122 then n - 32 else n)"

fun isWordOpt :: "char option \<Rightarrow> bool" where
  "isWordOpt None = False"
| "isWordOpt (Some c) = isWordChar c"

definition charAt :: "string \<Rightarrow> nat \<Rightarrow> char option" where
  "charAt s i = (if i < length s then Some (s ! i) else None)"

text \<open>
  \<^verbatim>\<open>\b\<close> holds between two positions when exactly one of the neighbouring code
  units is a word character; the outside of the string counts as a non-word character.
\<close>

definition wordBoundary :: "char option \<Rightarrow> char option \<Rightarrow> bool" where
  "wordBoundary a b = (isWordOpt a \<noteq> isWordOpt b)"

text \<open>
  \<open>matchesAt key prev s\<close>: the expression \<^verbatim>\<open>\bkey\b\<close> with flag \<^verbatim>\<open>i\<close>
  matches at the position whose remaining input is \<open>s\<close> and whose preceding code
  unit is \<open>prev\<close>. Every key of the table is a non-empty string of literal
  characters.
\<close>

definition matchesAt :: "string \<Rightarrow> char option \<Rightarrow> string \<Rightarrow> bool" where
  "matchesAt key prev s =
     (key \<noteq> [] \<and> length key \<le> length s \<and>
      map canonicalize (take (length key) s) = map canonicalize key \<and>
      wordBoundary prev (charAt s 0) \<and>
      wordBoundary (charAt s (length key - 1)) (charAt s (length key)))"

text \<open>
  \<^verbatim>\<open>normalized.replace(new RegExp(`\\b${key}\\b`, 'gi'), value)\<close>: the scan goes
  left to right over the original string; at a match it emits the value and resumes
  behind the match, otherwise it copies one code unit.
\<close>

function replaceWord :: "string \<Rightarrow> string \<Rightarrow> char option \<Rightarrow> string \<Rightarrow> string" where
  "replaceWord key val prev [] = []"
| "replaceWord key val prev (c # cs) =
     (if matchesAt key prev (c # cs)
      then val @ replaceWord key val (charAt (c # cs) (length key - 1))
                   (drop (length key) (c # cs))
      else c # replaceWord key val (Some c) cs)"
  by pat_completeness auto
termination
  by (relation "measure (\<lambda>(key, val, prev, s). length s)") (auto simp: matchesAt_def)

text \<open>White space that \<^verbatim>\<open>trim()\<close> strips, among the code units below 256.\<close>

definition isSpace :: "char \<Rightarrow> bool" where
  "isSpace c = (let n = (of_char c :: nat) in (9 \<le> n \<and> n \<le> 13) \<or> n = 32 \<or> n = 160)"

definition trim :: "string \<Rightarrow> string" where
  "trim s = rev (dropWhile isSpace (rev (dropWhile isSpace s)))"

text \<open>The replacement table, in the order \<^verbatim>\<open>Object.entries\<close> yields it.\<close>

definition replacements :: "(string \<times> string) list" where
  "replacements =
     [(''Rd'', ''Road''), (''Ln'', ''Lane''), (''Dr'', ''Drive''), (''St'', ''Street''),
      (''Ave'', ''Avenue''), (''Blvd'', ''Boulevard''), (''Hwy'', ''Highway''),
      (''CR'', ''County Road''), (''Vz CR'', ''Vz County Road''),
      (''Us Highway'', ''US Hwy''), (''#'', [])]"

text \<open>The \<^verbatim>\<open>for\<close> loop of lines 62 to 64.\<close>

fun applyReplacements :: "(string \<times> string) list \<Rightarrow> string \<Rightarrow> string" where
  "applyReplacements [] normalized = normalized"
| "applyReplacements ((key, val) # rest) normalized =
     applyReplacements rest (replaceWord key val None normalized)"

definition normalizeAddress :: "string option \<Rightarrow> string option" where
  "normalizeAddress address =
     (case address of
        None \<Rightarrow> None
      | Some a \<Rightarrow>
          if a = [] then Some a else Some (applyReplacements replacements (trim a)))"

text \<open>
  The words of a string, for stating what the normalizer does to whole words: the
  string is cut into its maximal runs of word characters and of other characters.
\<close>

function tokens :: "string \<Rightarrow> string list" where
  "tokens [] = []"
| "tokens (c # cs) =
     (c # takeWhile (\<lambda>x. isWordChar x = isWordChar c) cs)
       # tokens (dropWhile (\<lambda>x. isWordChar x = isWordChar c) cs)"
  by pat_completeness auto
termination
  by (relation "measure length") (auto simp: less_Suc_eq_le length_dropWhile_le)

definition ciEqual :: "string \<Rightarrow> string \<Rightarrow> bool" where
  "ciEqual a b = (map canonicalize a = map canonicalize b)"

text \<open>
  The expansion of one word by the eight rules of the table whose key is a single
  alphanumeric word; any other word, and any run of separators, is returned as it is.
\<close>

definition expandWord :: "string \<Rightarrow> string" where
  "expandWord t =
     (if ciEqual t ''Rd'' then ''Road''
      else if ciEqual t ''Ln'' then ''Lane''
      else if ciEqual t ''Dr'' then ''Drive''
      else if ciEqual t ''St'' then ''Street''
      else if ciEqual t ''Ave'' then ''Avenue''
      else if ciEqual t ''Blvd'' then ''Boulevard''
      else if ciEqual t ''Hwy'' then ''Highway''
      else if ciEqual t ''CR'' then ''County Road''
      else t)"

text \<open>
  Two notions for the proofs about words: a non-empty run of characters that all are
  word characters (\<open>b = True\<close>) or all are not (\<open>b = False\<close>), and the effect of
  one rule on one token.
\<close>

definition uniformRun :: "bool \<Rightarrow> string \<Rightarrow> bool" where
  "uniformRun b t = (t \<noteq> [] \<and> (\<forall>x \<in> set t. isWordChar x = b))"

definition rewriteToken :: "string \<Rightarrow> string \<Rightarrow> string \<Rightarrow> string" where
  "rewriteToken key val t = (if ciEqual t key then val else t)"

subsection \<open>Data of a rendering pass\<close>

text \<open>
  The values a latitude or longitude field can hold after \<^verbatim>\<open>JSON.parse\<close>, with
  \<open>JUndefined\<close> for an absent field. Numbers are the finite ones; the code never
  computes with them, it tests their truthiness and hands them on.
\<close>

datatype jsval = JUndefined | JNull | JBool bool | JNum real | JStr string

fun truthy :: "jsval \<Rightarrow> bool" where
  "truthy JUndefined = False"
| "truthy JNull = False"
| "truthy (JBool b) = b"
| "truthy (JNum x) = (x \<noteq> 0)"
| "truthy (JStr s) = (s \<noteq> [])"

text \<open>Truthiness of a field that is absent or a string.\<close>

fun truthyStr :: "string option \<Rightarrow> bool" where
  "truthyStr None = False"
| "truthyStr (Some s) = (s \<noteq> [])"

text \<open>
  The nested listing shape of HouseMap.vue: \<^verbatim>\<open>houseData.property\<close>, its
  \<^verbatim>\<open>address\<close> object, the two coordinate fields the placement decision reads,
  and the description that \<open>escapeHtml\<close> is applied to. The address parts and the
  description are taken to be strings when present.
\<close>

record address =
  streetAddress :: "string option"
  city :: "string option"
  state :: "string option"
  zipcode :: "string option"

record property =
  address :: "address option"
  latitude :: jsval
  longitude :: jsval
  description :: "string option"

record houseData =
  property :: "property option"

text \<open>The flat listing shape of part_000: \<^verbatim>\<open>house.address\<close> is one string.\<close>

record house =
  houseAddress :: "string option"

record coords =
  lat :: jsval
  lng :: jsval

text \<open>
  An entry of \<^verbatim>\<open>skippedHouses\<close>: the listing key (\<^verbatim>\<open>zpid\<close> in HouseMap.vue,
  \<^verbatim>\<open>mlsId\<close> in part_000) and the \<^verbatim>\<open>address\<close> text. The source's records have
  these two fields and no other.
\<close>

record skipped =
  skipId :: string
  skipAddress :: string

text \<open>What the code passes to \<^verbatim>\<open>PinElement\<close> and \<^verbatim>\<open>AdvancedMarkerElement\<close>.\<close>

record marker =
  glyph :: string
  position :: coords
  title :: string

text \<open>
  The component's state: the refs \<^verbatim>\<open>error\<close>, \<^verbatim>\<open>skippedHouses\<close> and
  \<^verbatim>\<open>successCount\<close>, the module variable \<^verbatim>\<open>markers\<close>, the pass-local
  \<^verbatim>\<open>bounds\<close> (the coordinates it was extended by), and the calls made to the two
  external services: the \<^verbatim>\<open>address\<close> parameter of each \<^verbatim>\<open>axios.get\<close> and
  the bounds of each \<^verbatim>\<open>googleMap.fitBounds\<close>.
\<close>

record component =
  error :: string
  skippedHouses :: "skipped list"
  successCount :: nat
  markers :: "marker list"
  bounds :: "coords list"
  requests :: "string option list"
  fitBoundsCalls :: "coords list list"

text \<open>The state after \<^verbatim>\<open>setup\<close> with an API key present.\<close>

definition initial :: component where
  "initial =
     \<lparr>error = [], skippedHouses = [], successCount = 0, markers = [], bounds = [],
      requests = [], fitBoundsCalls = []\<rparr>"

text \<open>
  The external collaborators. The geocoding service answers a request with a list of
  candidate locations or the request throws (transport error, or a response without
  the expected fields). The mapping SDK lets the \<^verbatim>\<open>try\<close> block of a listing run
  to its end or throws at one of its calls.
\<close>

datatype geoResponse = GeoThrows | GeoResults "coords list"

datatype placeResult =
  PlaceOk | ThrowsAtPin | ThrowsAtMarker | ThrowsAtInfoWindow | ThrowsAtListener | ThrowsAtExtend

record world =
  geocode :: "string option \<Rightarrow> geoResponse"
  placement :: "string \<Rightarrow> placeResult"

subsection \<open>Placing one marker\<close>

text \<open>The decimal text of a count, as the template literal of the glyph produces it.\<close>

fun showNat :: "nat \<Rightarrow> string" where
  "showNat n =
     (if n < 10 then [''0123456789'' ! n]
      else showNat (n div 10) @ [''0123456789'' ! (n mod 10)])"

declare showNat.simps [simp del]





text \<open>
  The \<^verbatim>\<open>try\<close> block of the loop body (HouseMap.vue lines 146 to 214, part_000
  lines 145 to 191), the same in both variants up to the title text and the popup
  markup, which no state depends on. Its calls run in this order: the pin is built
  with the glyph \<^verbatim>\<open>successCount.value + 1\<close>, the marker is built and pushed to
  \<^verbatim>\<open>markers\<close>, the info window is built, the click listener is attached, the
  bounds are extended, the count is incremented. A throw at any call leaves the
  later ones undone; the \<^verbatim>\<open>catch\<close> block writes to the console only.
\<close>

definition tryPlace :: "placeResult \<Rightarrow> string \<Rightarrow> coords \<Rightarrow> component \<Rightarrow> component" where
  "tryPlace outcome titleText c st =
     (let m = \<lparr>glyph = showNat (successCount st + 1), position = c, title = titleText\<rparr>
      in case outcome of
           ThrowsAtPin \<Rightarrow> st
         | ThrowsAtMarker \<Rightarrow> st
         | ThrowsAtInfoWindow \<Rightarrow> st\<lparr>markers := markers st @ [m]\<rparr>
         | ThrowsAtListener \<Rightarrow> st\<lparr>markers := markers st @ [m]\<rparr>
         | ThrowsAtExtend \<Rightarrow> st\<lparr>markers := markers st @ [m]\<rparr>
         | PlaceOk \<Rightarrow>
             st\<lparr>markers := markers st @ [m],
                bounds := bounds st @ [c],
                successCount := successCount st + 1\<rparr>)"

subsection \<open>addHousesToMap of HouseMap.vue (lines 97 to 226)\<close>

text \<open>
  A string field inside a template literal; an absent field prints as
  \<^verbatim>\<open>undefined\<close>.
\<close>

fun templateStr :: "string option \<Rightarrow> string" where
  "templateStr None = ''undefined''"
| "templateStr (Some s) = s"

text \<open>The template literal of line 131.\<close>

definition fullAddress :: "address \<Rightarrow> string" where
  "fullAddress a =
     templateStr (streetAddress a) @ '', '' @ templateStr (city a) @ '', ''
       @ templateStr (state a) @ '' '' @ templateStr (zipcode a)"

text \<open>Lines 134 to 139: the embedded pair is used when both values are truthy.\<close>

definition embeddedCoords :: "property \<Rightarrow> coords option" where
  "embeddedCoords h =
     (if truthy (latitude h) \<and> truthy (longitude h)
      then Some \<lparr>lat = latitude h, lng = longitude h\<rparr>
      else None)"

text \<open>
  One round of the \<^verbatim>\<open>for\<close> loop. The two outer case distinctions are the
  optional chaining of the guard of lines 120 to 125: a missing \<^verbatim>\<open>property\<close> or
  \<^verbatim>\<open>address\<close> makes its first disjunct true.
\<close>

definition processEntry_nested :: "world \<Rightarrow> string \<times> houseData \<Rightarrow> component \<Rightarrow> component" where
  "processEntry_nested w entry st =
     (let zpid = fst entry; hdata = snd entry;
          invalid = st\<lparr>skippedHouses := skippedHouses st
                      @ [\<lparr>skipId = zpid, skipAddress = ''Invalid or missing address''\<rparr>]\<rparr>
      in case property hdata of
           None \<Rightarrow> invalid
         | Some h \<Rightarrow>
             (case address h of
                None \<Rightarrow> invalid
              | Some a \<Rightarrow>
                  if \<not> truthyStr (streetAddress a) \<or> \<not> truthyStr (city a) \<or>
                     \<not> truthyStr (state a) \<or> \<not> truthyStr (zipcode a)
                  then invalid
                  else
                    (case embeddedCoords h of
                       None \<Rightarrow>
                         st\<lparr>skippedHouses := skippedHouses st
                               @ [\<lparr>skipId = zpid, skipAddress = fullAddress a\<rparr>]\<rparr>
                     | Some c \<Rightarrow> tryPlace (placement w zpid) (fullAddress a) c st)))"

fun forEntries_nested :: "world \<Rightarrow> (string \<times> houseData) list \<Rightarrow> component \<Rightarrow> component" where
  "forEntries_nested w [] st = st"
| "forEntries_nested w (entry # rest) st =
     forEntries_nested w rest (processEntry_nested w entry st)"

text \<open>
  The whole pass: the early return on an empty collection (lines 109 to 112), the
  reset (lines 114 to 116), the loop, and the fit or the message (lines 217 to 225).
  \<^verbatim>\<open>fitBounds\<close> is called inside a \<^verbatim>\<open>try\<close>; the call is recorded.
\<close>

definition addHousesToMap_nested ::
    "world \<Rightarrow> (string \<times> houseData) list \<Rightarrow> component \<Rightarrow> component" where
  "addHousesToMap_nested w houseEntries st =
     (if houseEntries = []
      then st\<lparr>error := ''No houses provided. Please check the data source.''\<rparr>
      else
        (let st1 = st\<lparr>bounds := [], successCount := 0, skippedHouses := []\<rparr>;
             st2 = forEntries_nested w houseEntries st1
         in if successCount st2 > 0
            then st2\<lparr>fitBoundsCalls := fitBoundsCalls st2 @ [bounds st2]\<rparr>
            else st2\<lparr>error := ''No houses could be displayed on the map.''\<rparr>))"

subsection \<open>initMap and onMounted of HouseMap.vue (lines 55 to 73 and 256 to 265)\<close>

text \<open>
  The one place where \<^verbatim>\<open>addHousesToMap\<close> is called. Without an API key the
  setup code sets the configuration message and the hook returns at once. When the
  SDK script fails to load, the hook ends in its \<^verbatim>\<open>catch\<close> block with the
  message built from the error. Otherwise \<^verbatim>\<open>initMap\<close> runs (it may set a message
  of its own and still returns normally), and then the pass runs, on the refs as
  the setup code created them.
\<close>

datatype initResult = MapCreated | NoContainer | MapThrows

record session =
  hasApiKey :: bool
  sdkLoads :: bool
  mapInit :: initResult

definition initMap :: "initResult \<Rightarrow> component \<Rightarrow> component" where
  "initMap r st =
     (case r of
        NoContainer \<Rightarrow>
          st\<lparr>error := ''Map container not found. Please check the page structure.''\<rparr>
      | MapThrows \<Rightarrow>
          st\<lparr>error :=
               ''Failed to initialize map. Please check API key and billing settings.''\<rparr>
      | MapCreated \<Rightarrow> st)"

definition onMounted_nested ::
    "session \<Rightarrow> world \<Rightarrow> (string \<times> houseData) list \<Rightarrow> component" where
  "onMounted_nested ses w houses =
     (if \<not> hasApiKey ses
      then initial\<lparr>error :=
             ''Map configuration error: Missing API key. Please contact support.''\<rparr>
      else if \<not> sdkLoads ses
      then initial\<lparr>error :=
             ''Failed to load map: Failed to load Google Maps API. Please try again later.''\<rparr>
      else addHousesToMap_nested w houses (initMap (mapInit ses) initial))"

subsection \<open>geocodeAddress and addHousesToMap of part_000\<close>

text \<open>
  \<open>geocodeAddress\<close> (lines 69 to 92): the address is normalized, one request is
  sent, and the first candidate is returned; an empty result list and a throw both
  give \<^verbatim>\<open>null\<close>.
\<close>

definition geocodeAddress :: "world \<Rightarrow> string option \<Rightarrow> component \<Rightarrow> coords option \<times> component" where
  "geocodeAddress w addr st =
     (let normalizedAddress = normalizeAddress addr;
          st' = st\<lparr>requests := requests st @ [normalizedAddress]\<rparr>
      in case geocode w normalizedAddress of
           GeoThrows \<Rightarrow> (None, st')
         | GeoResults results \<Rightarrow>
             (case results of [] \<Rightarrow> (None, st') | r # _ \<Rightarrow> (Some r, st')))"

text \<open>One round of the \<^verbatim>\<open>for\<close> loop of lines 131 to 192.\<close>

definition processEntry_flat :: "world \<Rightarrow> string \<times> house \<Rightarrow> component \<Rightarrow> component" where
  "processEntry_flat w entry st =
     (let mlsId = fst entry; h = snd entry;
          noAddress = st\<lparr>skippedHouses := skippedHouses st
                        @ [\<lparr>skipId = mlsId, skipAddress = ''No address''\<rparr>]\<rparr>
      in case houseAddress h of
           None \<Rightarrow> noAddress
         | Some a \<Rightarrow>
             if a = [] then noAddress
             else
               (case geocodeAddress w (Some a) st of
                  (None, st') \<Rightarrow>
                    st'\<lparr>skippedHouses := skippedHouses st'
                           @ [\<lparr>skipId = mlsId, skipAddress = a\<rparr>]\<rparr>
                | (Some c, st') \<Rightarrow> tryPlace (placement w mlsId) a c st'))"

fun forEntries_flat :: "world \<Rightarrow> (string \<times> house) list \<Rightarrow> component \<Rightarrow> component" where
  "forEntries_flat w [] st = st"
| "forEntries_flat w (entry # rest) st =
     forEntries_flat w rest (processEntry_flat w entry st)"

definition addHousesToMap_flat ::
    "world \<Rightarrow> (string \<times> house) list \<Rightarrow> component \<Rightarrow> component" where
  "addHousesToMap_flat w houseEntries st =
     (if houseEntries = []
      then st\<lparr>error := ''No houses provided. Please check the data source.''\<rparr>
      else
        (let st1 = st\<lparr>bounds := [], successCount := 0, skippedHouses := []\<rparr>;
             st2 = forEntries_flat w houseEntries st1
         in if successCount st2 > 0
            then st2\<lparr>fitBoundsCalls := fitBoundsCalls st2 @ [bounds st2]\<rparr>
            else st2\<lparr>error := ''No houses could be geocoded and displayed on the map.''\<rparr>))"

subsection \<open>Successful placements and example data\<close>

text \<open>
  A listing is placed in a pass when its round of the loop reaches the increment of
  \<^verbatim>\<open>successCount\<close>: the flat variant needs a non-empty address, a non-empty
  answer of the geocoding service and a \<^verbatim>\<open>try\<close> block that runs to its end; the
  nested variant needs the four address parts, a truthy latitude and longitude
  and a \<^verbatim>\<open>try\<close> block that runs to its end.
\<close>

definition placed_flat :: "world \<Rightarrow> string \<times> house \<Rightarrow> bool" where
  "placed_flat w entry =
     (case houseAddress (snd entry) of
        None \<Rightarrow> False
      | Some a \<Rightarrow>
          a \<noteq> [] \<and>
          (case geocode w (normalizeAddress (Some a)) of
             GeoThrows \<Rightarrow> False
           | GeoResults results \<Rightarrow> results \<noteq> []) \<and>
          placement w (fst entry) = PlaceOk)"

definition placed_nested :: "world \<Rightarrow> string \<times> houseData \<Rightarrow> bool" where
  "placed_nested w entry =
     (case property (snd entry) of
        None \<Rightarrow> False
      | Some h \<Rightarrow>
          (case address h of
             None \<Rightarrow> False
           | Some a \<Rightarrow>
               truthyStr (streetAddress a) \<and> truthyStr (city a) \<and>
               truthyStr (state a) \<and> truthyStr (zipcode a) \<and>
               truthy (latitude h) \<and> truthy (longitude h) \<and>
               placement w (fst entry) = PlaceOk))"

text \<open>
  The skip records that a listing of the nested variant stands for in a pass: one
  record with the placeholder text when the address guard fails, one record with the
  full address when a coordinate is falsy, none otherwise.
\<close>

definition skipOf_nested :: "string \<times> houseData \<Rightarrow> skipped list" where
  "skipOf_nested entry =
     (let invalid = [\<lparr>skipId = fst entry, skipAddress = ''Invalid or missing address''\<rparr>]
      in case property (snd entry) of
           None \<Rightarrow> invalid
         | Some h \<Rightarrow>
             (case address h of
                None \<Rightarrow> invalid
              | Some a \<Rightarrow>
                  if truthyStr (streetAddress a) \<and> truthyStr (city a) \<and>
                     truthyStr (state a) \<and> truthyStr (zipcode a)
                  then (if truthy (latitude h) \<and> truthy (longitude h) then []
                        else [\<lparr>skipId = fst entry, skipAddress = fullAddress a\<rparr>])
                  else invalid))"

text \<open>
  Concrete collaborators and listings for the examples below. In \<open>okWorld\<close> every
  lookup finds one candidate and every placement runs to its end. In
  \<open>throwingWorld\<close> the lookup of \<^verbatim>\<open>9 Elm Street\<close> throws and the click listener of
  listing \<^verbatim>\<open>z1\<close> cannot be attached.
\<close>

definition okWorld :: world where
  "okWorld =
     \<lparr>geocode = (\<lambda>_. GeoResults [\<lparr>lat = JNum 30, lng = JNum (-95)\<rparr>]),
      placement = (\<lambda>_. PlaceOk)\<rparr>"

definition throwingWorld :: world where
  "throwingWorld =
     \<lparr>geocode = (\<lambda>a. if a = Some ''9 Elm Street'' then GeoThrows
                      else GeoResults [\<lparr>lat = JNum 30, lng = JNum (-95)\<rparr>]),
      placement = (\<lambda>k. if k = ''z1'' then ThrowsAtListener else PlaceOk)\<rparr>"

definition mainStreet :: address where
  "mainStreet =
     \<lparr>streetAddress = Some ''1 Main St'', city = Some ''Austin'',
      state = Some ''TX'', zipcode = Some ''78701''\<rparr>"

definition elmStreet :: address where
  "elmStreet =
     \<lparr>streetAddress = Some ''9 Elm St'', city = Some ''Austin'',
      state = Some ''TX'', zipcode = Some ''78702''\<rparr>"

definition noZipcode :: address where
  "noZipcode =
     \<lparr>streetAddress = Some ''1 Main St'', city = Some ''Austin'',
      state = Some ''TX'', zipcode = None\<rparr>"

definition propertyAt :: "address \<Rightarrow> jsval \<Rightarrow> jsval \<Rightarrow> property" where
  "propertyAt a la lo =
     \<lparr>address = Some a, latitude = la, longitude = lo, description = None\<rparr>"

definition listingAt :: "address \<Rightarrow> jsval \<Rightarrow> jsval \<Rightarrow> houseData" where
  "listingAt a la lo = \<lparr>property = Some (propertyAt a la lo)\<rparr>"

text \<open>A component state that still holds the outcome of an earlier pass.\<close>

definition staleState :: component where
  "staleState =
     initial\<lparr>successCount := 2,
       skippedHouses := [\<lparr>skipId = ''z0'', skipAddress = ''Invalid or missing address''\<rparr>]\<rparr>"

text \<open>A session with an API key, a loaded SDK and a created map.\<close>

definition readySession :: session where
  "readySession = \<lparr>hasApiKey = True, sdkLoads = True, mapInit = MapCreated\<rparr>"


section \<open>Properties\<close>

subsection \<open>Facts about one placement and one round of the loop\<close>

lemma tryPlace_frame:
  "skippedHouses (tryPlace r t c st) = skippedHouses st"
  "error (tryPlace r t c st) = error st"
  "requests (tryPlace r t c st) = requests st"
  "fitBoundsCalls (tryPlace r t c st) = fitBoundsCalls st"
  by (cases r; simp add: tryPlace_def Let_def)+

lemma tryPlace_fails:
  "r \<noteq> PlaceOk \<Longrightarrow> successCount (tryPlace r t c st) = successCount st"
  "r \<noteq> PlaceOk \<Longrightarrow> bounds (tryPlace r t c st) = bounds st"
  by (cases r; simp add: tryPlace_def Let_def)+

lemma tryPlace_ok:
  "tryPlace PlaceOk t c st =
     st\<lparr>markers := markers st
             @ [\<lparr>glyph = showNat (successCount st + 1), position = c, title = t\<rparr>],
        bounds := bounds st @ [c], successCount := successCount st + 1\<rparr>"
  by (simp add: tryPlace_def Let_def)

lemma tryPlace_count:
  "successCount (tryPlace r t c st) = successCount st + (if r = PlaceOk then 1 else 0)"
  by (cases r) (simp_all add: tryPlace_def Let_def)




lemma showNat_1: "showNat (Suc 0) = ''1''"
  by (simp add: showNat.simps)








lemma processEntry_nested_frame:
  "error (processEntry_nested w e st) = error st"
  "requests (processEntry_nested w e st) = requests st"
  "fitBoundsCalls (processEntry_nested w e st) = fitBoundsCalls st"
  by (simp_all add: processEntry_nested_def Let_def tryPlace_frame split: option.splits)

lemma forEntries_nested_frame:
  "error (forEntries_nested w es st) = error st"
  "requests (forEntries_nested w es st) = requests st"
  "fitBoundsCalls (forEntries_nested w es st) = fitBoundsCalls st"
  by (induction es arbitrary: st; simp add: processEntry_nested_frame)+

lemma geocodeAddress_frame:
  "geocodeAddress w a st = (r, st') \<Longrightarrow>
     st' = st\<lparr>requests := requests st @ [normalizeAddress a]\<rparr>"
  by (auto simp: geocodeAddress_def Let_def split: geoResponse.splits list.splits)

lemma processEntry_flat_frame:
  "error (processEntry_flat w e st) = error st"
  "fitBoundsCalls (processEntry_flat w e st) = fitBoundsCalls st"
  by (auto simp: processEntry_flat_def Let_def tryPlace_frame
        split: option.splits prod.splits dest!: geocodeAddress_frame)

lemma forEntries_flat_frame:
  "error (forEntries_flat w es st) = error st"
  "fitBoundsCalls (forEntries_flat w es st) = fitBoundsCalls st"
  by (induction es arbitrary: st; simp add: processEntry_flat_frame)+

lemma processEntry_flat_requests:
  "requests (processEntry_flat w e st) =
     requests st @ (if truthyStr (houseAddress (snd e))
                    then [normalizeAddress (houseAddress (snd e))] else [])"
  by (auto simp: processEntry_flat_def Let_def tryPlace_frame
        split: option.splits prod.splits dest!: geocodeAddress_frame)

lemma forEntries_flat_requests:
  "requests (forEntries_flat w es st) =
     requests st @ map (\<lambda>e. normalizeAddress (houseAddress (snd e)))
                     (filter (\<lambda>e. truthyStr (houseAddress (snd e))) es)"
  by (induction es arbitrary: st) (simp_all add: processEntry_flat_requests)

lemma processEntry_flat_count:
  "successCount (processEntry_flat w e st) =
     successCount st + (if placed_flat w e then 1 else 0)"
  by (auto simp: processEntry_flat_def placed_flat_def geocodeAddress_def Let_def
        tryPlace_count split: option.splits geoResponse.splits list.splits)





lemma processEntry_nested_count:
  "successCount (processEntry_nested w e st) =
     successCount st + (if placed_nested w e then 1 else 0)"
  by (auto simp: processEntry_nested_def placed_nested_def embeddedCoords_def Let_def
        tryPlace_count split: option.splits)

lemma forEntries_nested_count:
  "successCount (forEntries_nested w es st) =
     successCount st + length (filter (placed_nested w) es)"
  by (induction es arbitrary: st) (simp_all add: processEntry_nested_count)



lemma processEntry_nested_skips:
  "skippedHouses (processEntry_nested w e st) = skippedHouses st @ skipOf_nested e"
  by (auto simp: processEntry_nested_def skipOf_nested_def embeddedCoords_def Let_def
        tryPlace_frame split: option.splits)

lemma forEntries_nested_skips:
  "skippedHouses (forEntries_nested w es st) = skippedHouses st @ concat (map skipOf_nested es)"
  by (induction es arbitrary: st) (simp_all add: processEntry_nested_skips)

lemma initMap_outcome:
  "successCount (initMap r st) = successCount st"
  "skippedHouses (initMap r st) = skippedHouses st"
  by (cases r; simp add: initMap_def)+

lemma addHousesToMap_nested_outcome:
  assumes "houseEntries \<noteq> [] \<or> (successCount st = 0 \<and> skippedHouses st = [])"
  shows "successCount (addHousesToMap_nested w houseEntries st) =
           length (filter (placed_nested w) houseEntries)"
    and "skippedHouses (addHousesToMap_nested w houseEntries st) =
           concat (map skipOf_nested houseEntries)"
  using assms
  by (auto simp: addHousesToMap_nested_def Let_def forEntries_nested_count
        forEntries_nested_skips)




text \<open>Values of the example data that the closed theorems below rely on.\<close>

lemma initial_fields:
  "error initial = []" "skippedHouses initial = []" "successCount initial = 0"
  "markers initial = []" "bounds initial = []" "requests initial = []"
  "fitBoundsCalls initial = []"
  by (simp_all add: initial_def)

lemma normalize_examples:
  "normalizeAddress (Some ''9 Elm St'') = Some ''9 Elm Street''"
  "normalizeAddress (Some ''1 Main St'') = Some ''1 Main Street''"
  "normalizeAddress (Some ''2 Oak Ave'') = Some ''2 Oak Avenue''"
  "normalizeAddress (Some ''3 Pine Rd'') = Some ''3 Pine Road''"
  by code_simp+

subsection \<open>C1: escaping of angle brackets\<close>

lemma replaceChar_Nil: "replaceChar c r [] = []"
  by (simp add: replaceChar_def)

lemma replaceChar_Cons:
  "replaceChar c r (x # xs) = (if x = c then r else [x]) @ replaceChar c r xs"
  by (simp add: replaceChar_def)

text \<open>
  C1. The claim says that the result of \<open>escapeHtml\<close> never holds an unescaped
  angle bracket. The code replaces each angle bracket by itself, so the description
  \<^verbatim>\<open><b>\<close> comes back unchanged, both brackets included. On a description that
  holds every character the claim names, the backslash and the three quote characters
  get a backslash in front, the newline becomes a space and the carriage return is
  dropped, while the two angle brackets are still there.
\<close>

theorem escapeHtml_keeps_angle_brackets:
  "escapeHtml (Some ''<b>'') = ''<b>''
   \<and> escapeHtml
        (Some [backslash, squote, dquote, backtick, newline, creturn, CHR ''<'', CHR ''>'']) =
       [backslash, backslash, backslash, squote, backslash, dquote, backslash, backtick,
        CHR '' '', CHR ''<'', CHR ''>'']"
  by (simp add: escapeHtml_def replaceChar_Nil replaceChar_Cons
        backslash_def squote_def dquote_def backtick_def newline_def creturn_def)

subsection \<open>C2: a placement that throws\<close>

text \<open>
  C2, counterexample. A pass over two listings with embedded coordinates; attaching
  the listener of the first throws, the second is placed. The skip list stays empty
  and no message is set: the failure of the first listing is recorded nowhere in
  the component state.
\<close>

theorem placement_failure_counterexample:
  "skippedHouses (addHousesToMap_nested throwingWorld
       [(''z1'', listingAt mainStreet (JNum 30) (JNum (-95))),
        (''z2'', listingAt elmStreet (JNum 31) (JNum (-96)))] initial) = []
   \<and> error (addHousesToMap_nested throwingWorld
       [(''z1'', listingAt mainStreet (JNum 30) (JNum (-95))),
        (''z2'', listingAt elmStreet (JNum 31) (JNum (-96)))] initial) = []
   \<and> successCount (addHousesToMap_nested throwingWorld
       [(''z1'', listingAt mainStreet (JNum 30) (JNum (-95))),
        (''z2'', listingAt elmStreet (JNum 31) (JNum (-96)))] initial) = 1"
  by (simp add: addHousesToMap_nested_def processEntry_nested_def embeddedCoords_def
        tryPlace_def throwingWorld_def listingAt_def propertyAt_def mainStreet_def
        elmStreet_def initial_def Let_def)

text \<open>
  C2, as amended. When the \<^verbatim>\<open>try\<close> block of a listing throws, in either variant,
  the exception is caught: no skip record is added, the success count and the
  message stay as they were, and the loop goes on with the remaining listings from
  the state that round left.
\<close>

theorem placement_failure_not_recorded:
  "(property hdata = Some h \<and> address h = Some a \<and> truthyStr (streetAddress a) \<and>
    truthyStr (city a) \<and> truthyStr (state a) \<and> truthyStr (zipcode a) \<and>
    truthy (latitude h) \<and> truthy (longitude h) \<and> placement w zpid \<noteq> PlaceOk \<longrightarrow>
      skippedHouses (processEntry_nested w (zpid, hdata) st) = skippedHouses st \<and>
      successCount (processEntry_nested w (zpid, hdata) st) = successCount st \<and>
      error (processEntry_nested w (zpid, hdata) st) = error st \<and>
      forEntries_nested w ((zpid, hdata) # rest) st =
        forEntries_nested w rest (processEntry_nested w (zpid, hdata) st))
   \<and>
   (houseAddress f = Some fa \<and> fa \<noteq> [] \<and>
    geocode w (normalizeAddress (Some fa)) = GeoResults (c # cs) \<and>
    placement w mlsId \<noteq> PlaceOk \<longrightarrow>
      skippedHouses (processEntry_flat w (mlsId, f) st) = skippedHouses st \<and>
      successCount (processEntry_flat w (mlsId, f) st) = successCount st \<and>
      error (processEntry_flat w (mlsId, f) st) = error st \<and>
      forEntries_flat w ((mlsId, f) # rest') st =
        forEntries_flat w rest' (processEntry_flat w (mlsId, f) st))"
  by (auto simp: processEntry_nested_def embeddedCoords_def processEntry_flat_def
        geocodeAddress_def Let_def tryPlace_frame tryPlace_fails)

text \<open>
  C2, witness: listing \<^verbatim>\<open>z1\<close>, whose listener cannot be attached, in both
  variants.
\<close>

theorem placement_failure_not_recorded_witness:
  "placement throwingWorld ''z1'' \<noteq> PlaceOk
   \<and> skippedHouses (processEntry_nested throwingWorld
         (''z1'', listingAt mainStreet (JNum 30) (JNum (-95))) initial) = []
   \<and> successCount (processEntry_nested throwingWorld
         (''z1'', listingAt mainStreet (JNum 30) (JNum (-95))) initial) = 0
   \<and> skippedHouses (processEntry_flat throwingWorld
         (''z1'', \<lparr>houseAddress = Some ''1 Main St''\<rparr>) initial) = []
   \<and> successCount (processEntry_flat throwingWorld
         (''z1'', \<lparr>houseAddress = Some ''1 Main St''\<rparr>) initial) = 0"
proof -
  have p: "placement throwingWorld ''z1'' \<noteq> PlaceOk"
    by (simp add: throwingWorld_def)
  have g: "geocode throwingWorld (normalizeAddress (Some ''1 Main St'')) =
      GeoResults [\<lparr>lat = JNum 30, lng = JNum (-95)\<rparr>]"
    by (simp add: normalize_examples throwingWorld_def)
  show ?thesis
    using p g placement_failure_not_recorded
      [where hdata = "listingAt mainStreet (JNum 30) (JNum (-95))"
         and h = "propertyAt mainStreet (JNum 30) (JNum (-95))" and a = mainStreet
         and w = throwingWorld and zpid = "''z1''" and st = initial
         and f = "\<lparr>houseAddress = Some ''1 Main St''\<rparr>" and fa = "''1 Main St''"
         and c = "\<lparr>lat = JNum 30, lng = JNum (-95)\<rparr>" and cs = "[]"
         and mlsId = "''z1''"]
    by (simp add: listingAt_def propertyAt_def mainStreet_def)
       (simp add: initial_def)
qed

subsection \<open>C3: when a geocoding request is issued\<close>

text \<open>
  C3, counterexample. In the nested variant a listing with a complete address and no
  coordinates is skipped with its full address, and no request is sent.
\<close>

theorem lookup_counterexample:
  "requests (addHousesToMap_nested okWorld
       [(''z1'', listingAt mainStreet JUndefined JUndefined)] initial) = []
   \<and> skippedHouses (addHousesToMap_nested okWorld
       [(''z1'', listingAt mainStreet JUndefined JUndefined)] initial) =
       [\<lparr>skipId = ''z1'', skipAddress = ''1 Main St, Austin, TX 78701''\<rparr>]"
  by (simp add: addHousesToMap_nested_def processEntry_nested_def embeddedCoords_def
        fullAddress_def listingAt_def propertyAt_def mainStreet_def initial_def Let_def)

text \<open>
  C3, as amended. A pass of the flat variant sends exactly one request for every
  listing with a non-empty address, in the order of the listings, and the request
  carries the normalized address; a pass of the nested variant sends none.
\<close>

theorem lookup_issued_once:
  "requests (addHousesToMap_flat w es st) =
     requests st @ map (\<lambda>e. normalizeAddress (houseAddress (snd e)))
                     (filter (\<lambda>e. truthyStr (houseAddress (snd e))) es)
   \<and> requests (addHousesToMap_nested w es' st) = requests st"
  by (simp add: addHousesToMap_flat_def addHousesToMap_nested_def Let_def
        forEntries_flat_requests forEntries_nested_frame)

text \<open>
  C3, witness: a flat pass over a listing without an address and a listing with one
  sends the single request for \<^verbatim>\<open>1 Main Street\<close>.
\<close>

theorem lookup_issued_once_witness:
  "requests (addHousesToMap_flat okWorld
       [(''m0'', \<lparr>houseAddress = None\<rparr>),
        (''m1'', \<lparr>houseAddress = Some ''1 Main St''\<rparr>)] initial) = [Some ''1 Main Street'']
   \<and> requests (addHousesToMap_nested okWorld
       [(''z1'', listingAt mainStreet JUndefined JUndefined)] initial) = []"
  using lookup_issued_once [of okWorld
      "[(''m0'', \<lparr>houseAddress = None\<rparr>), (''m1'', \<lparr>houseAddress = Some ''1 Main St''\<rparr>)]"
      initial "[(''z1'', listingAt mainStreet JUndefined JUndefined)]"]
  by (simp add: normalize_examples) (simp add: initial_def)

subsection \<open>C4: embedded coordinates\<close>

text \<open>
  C4, counterexample. Both listings carry a latitude and a longitude field. The
  first has latitude 0 and a complete address, the second has both coordinates
  non-zero and no postal code. Neither gets a marker; both end on the skip list.
\<close>

theorem embedded_coordinates_counterexample:
  "addHousesToMap_nested okWorld
       [(''z1'', listingAt mainStreet (JNum 0) (JNum (-95)))] initial =
     initial\<lparr>skippedHouses :=
                [\<lparr>skipId = ''z1'', skipAddress = ''1 Main St, Austin, TX 78701''\<rparr>],
             error := ''No houses could be displayed on the map.''\<rparr>
   \<and> addHousesToMap_nested okWorld
       [(''z2'', listingAt noZipcode (JNum 30) (JNum (-95)))] initial =
     initial\<lparr>skippedHouses :=
                [\<lparr>skipId = ''z2'', skipAddress = ''Invalid or missing address''\<rparr>],
             error := ''No houses could be displayed on the map.''\<rparr>"
  by (simp add: addHousesToMap_nested_def processEntry_nested_def embeddedCoords_def
        fullAddress_def listingAt_def propertyAt_def mainStreet_def noZipcode_def
        initial_def Let_def)

text \<open>
  C4, as amended. For a listing of the nested variant that has its four address
  parts and whose latitude and longitude are both truthy, the embedded pair is the
  coordinate handed to the placement, unchanged, and no request is sent; when the
  placement runs to its end, the marker sits at that pair and the bounds are
  extended by it.
\<close>

theorem embedded_coordinates_used:
  assumes "property hdata = Some h" and "address h = Some a"
    and "truthyStr (streetAddress a)" and "truthyStr (city a)"
    and "truthyStr (state a)" and "truthyStr (zipcode a)"
    and "truthy (latitude h)" and "truthy (longitude h)"
  shows "embeddedCoords h = Some \<lparr>lat = latitude h, lng = longitude h\<rparr>
    \<and> processEntry_nested w (zpid, hdata) st =
        tryPlace (placement w zpid) (fullAddress a)
          \<lparr>lat = latitude h, lng = longitude h\<rparr> st
    \<and> requests (processEntry_nested w (zpid, hdata) st) = requests st
    \<and> (placement w zpid = PlaceOk \<longrightarrow>
         markers (processEntry_nested w (zpid, hdata) st) =
           markers st @ [\<lparr>glyph = showNat (successCount st + 1),
                           position = \<lparr>lat = latitude h, lng = longitude h\<rparr>,
                           title = fullAddress a\<rparr>]
         \<and> bounds (processEntry_nested w (zpid, hdata) st) =
             bounds st @ [\<lparr>lat = latitude h, lng = longitude h\<rparr>])"
  using assms
  by (simp add: processEntry_nested_def embeddedCoords_def tryPlace_frame tryPlace_ok)

text \<open>
  C4, witness: the listing at (30, -95) with a complete address gets the marker
  \<^verbatim>\<open>1\<close> at exactly that pair, and no request is sent.
\<close>

theorem embedded_coordinates_used_witness:
  "truthy (JNum 30) \<and> truthy (JNum (-95))
   \<and> requests (processEntry_nested okWorld
        (''z1'', listingAt mainStreet (JNum 30) (JNum (-95))) initial) = []
   \<and> markers (processEntry_nested okWorld
        (''z1'', listingAt mainStreet (JNum 30) (JNum (-95))) initial) =
       [\<lparr>glyph = ''1'', position = \<lparr>lat = JNum 30, lng = JNum (-95)\<rparr>,
         title = ''1 Main St, Austin, TX 78701''\<rparr>]"
  using embedded_coordinates_used [of "listingAt mainStreet (JNum 30) (JNum (-95))"
      "propertyAt mainStreet (JNum 30) (JNum (-95))" mainStreet okWorld "''z1''" initial]
  by (simp add: listingAt_def propertyAt_def mainStreet_def fullAddress_def initial_def
        okWorld_def showNat_1 tryPlace_frame tryPlace_ok)

subsection \<open>C5: the address normalizer\<close>

text \<open>
  Where a rule whose key is one alphanumeric word can match: never at a separator,
  never inside a word, and at the start of a word exactly when the whole word equals
  the key up to case.
\<close>

lemma canonicalize_class:
  "canonicalize a = canonicalize b \<Longrightarrow> isWordChar a = isWordChar b"
  by (auto simp: canonicalize_def isWordChar_def Let_def split: if_splits)

lemma no_match_at_separator:
  assumes "\<not> isWordChar c" and "uniformRun True key"
  shows "\<not> matchesAt key prev (c # cs)"
proof
  assume m: "matchesAt key prev (c # cs)"
  obtain k ks where key: "key = k # ks" and k: "isWordChar k"
    using assms(2) by (cases key) (auto simp: uniformRun_def)
  from m key have "canonicalize c = canonicalize k"
    by (simp add: matchesAt_def)
  with k assms(1) show False
    using canonicalize_class by blast
qed

lemma no_match_inside_word:
  "isWordOpt prev \<Longrightarrow> isWordChar c \<Longrightarrow> \<not> matchesAt key prev (c # cs)"
  by (simp add: matchesAt_def wordBoundary_def charAt_def)

lemma replaceWord_separators:
  assumes "uniformRun True key"
  shows "\<forall>x \<in> set u. \<not> isWordChar x \<Longrightarrow>
         replaceWord key val prev (u @ rest) =
           u @ replaceWord key val (if u = [] then prev else Some (last u)) rest"
proof (induction u arbitrary: prev)
  case Nil
  show ?case by simp
next
  case (Cons c u)
  have "\<not> matchesAt key prev (c # u @ rest)"
    using Cons.prems assms by (simp add: no_match_at_separator)
  then show ?case using Cons by simp
qed

lemma replaceWord_inside_word:
  "isWordOpt prev \<Longrightarrow> \<forall>x \<in> set u. isWordChar x \<Longrightarrow>
     replaceWord key val prev (u @ rest) =
       u @ replaceWord key val (if u = [] then prev else Some (last u)) rest"
proof (induction u arbitrary: prev)
  case Nil
  show ?case by simp
next
  case (Cons c u)
  have "\<not> matchesAt key prev (c # u @ rest)"
    using Cons.prems by (simp add: no_match_inside_word)
  moreover have "replaceWord key val (Some c) (u @ rest) =
       u @ replaceWord key val (if u = [] then Some c else Some (last u)) rest"
    using Cons.prems by (intro Cons.IH) simp_all
  ultimately show ?case by simp
qed

lemma ciEqual_length: "ciEqual a b \<Longrightarrow> length a = length b"
  unfolding ciEqual_def by (metis length_map)

lemma ciEqual_class:
  assumes "ciEqual a b" and "i < length a"
  shows "isWordChar (a ! i) = isWordChar (b ! i)"
proof -
  have "length a = length b" using assms(1) by (rule ciEqual_length)
  moreover have "map canonicalize a ! i = map canonicalize b ! i"
    using assms(1) by (simp add: ciEqual_def)
  ultimately have "canonicalize (a ! i) = canonicalize (b ! i)"
    using assms(2) by simp
  then show ?thesis by (rule canonicalize_class)
qed

lemma match_at_word_start:
  assumes prev: "\<not> isWordOpt prev"
    and w: "uniformRun True w"
    and rest: "rest = [] \<or> \<not> isWordChar (hd rest)"
    and key: "uniformRun True key"
  shows "matchesAt key prev (w @ rest) \<longleftrightarrow> ciEqual w key"
proof
  assume eq: "ciEqual w key"
  then have len: "length key = length w" by (simp add: ciEqual_length)
  have w0: "w \<noteq> []" "isWordChar (hd w)" "isWordChar (last w)"
    using w by (auto simp: uniformRun_def)
  have "charAt (w @ rest) 0 = Some (hd w)"
    using w0 by (cases w) (simp_all add: charAt_def)
  moreover have "charAt (w @ rest) (length w - 1) = Some (last w)"
  proof -
    have "0 < length w" using w0 by simp
    then have "length w - 1 < length w" and "length w - 1 < length w + length rest"
      by arith+
    then show ?thesis using w0 by (simp add: charAt_def nth_append last_conv_nth)
  qed
  moreover have "\<not> isWordOpt (charAt (w @ rest) (length w))"
    using rest by (cases rest) (simp_all add: charAt_def nth_append)
  moreover have "key \<noteq> []"
    using key by (simp add: uniformRun_def)
  ultimately show "matchesAt key prev (w @ rest)"
    using eq prev w0 len by (simp add: matchesAt_def wordBoundary_def ciEqual_def)
next
  assume m: "matchesAt key prev (w @ rest)"
  let ?n = "length key"
  have n: "?n \<le> length (w @ rest)" "0 < ?n"
    and can: "map canonicalize (take ?n (w @ rest)) = map canonicalize key"
    and after: "wordBoundary (charAt (w @ rest) (?n - 1)) (charAt (w @ rest) ?n)"
    using m by (simp_all add: matchesAt_def)
  have ce: "ciEqual (take ?n (w @ rest)) key"
    using can by (simp add: ciEqual_def)
  have cls: "isWordChar ((w @ rest) ! i)" if "i < ?n" for i
  proof -
    have "isWordChar (take ?n (w @ rest) ! i) = isWordChar (key ! i)"
      using ce that n by (intro ciEqual_class) simp_all
    moreover have "isWordChar (key ! i)"
      using key that by (simp add: uniformRun_def)
    moreover have "take ?n (w @ rest) ! i = (w @ rest) ! i"
      using that by (rule nth_take)
    ultimately show ?thesis by (simp only:)
  qed
  have "?n = length w"
  proof (rule ccontr)
    assume ne: "?n \<noteq> length w"
    show False
    proof (cases "?n < length w")
      case True
      then have "isWordChar ((w @ rest) ! ?n)"
        using w by (simp add: nth_append uniformRun_def)
      moreover have "isWordChar ((w @ rest) ! (?n - 1))"
        using n by (intro cls) simp
      moreover have "?n - 1 < length (w @ rest)" and "?n < length (w @ rest)"
        using True by simp_all
      ultimately show False
        using after by (simp add: wordBoundary_def charAt_def)
    next
      case False
      with ne have gt: "length w < ?n" by simp
      then have "isWordChar ((w @ rest) ! length w)" by (rule cls)
      moreover have "rest \<noteq> []" using gt n by auto
      ultimately show False
        using rest by (cases rest) (simp_all add: nth_append)
    qed
  qed
  then show "ciEqual w key"
    using ce by simp
qed

lemma replaceWord_word:
  assumes prev: "\<not> isWordOpt prev"
    and w: "uniformRun True w"
    and rest: "rest = [] \<or> \<not> isWordChar (hd rest)"
    and key: "uniformRun True key"
  shows "replaceWord key val prev (w @ rest) =
           rewriteToken key val w @ replaceWord key val (Some (last w)) rest"
proof -
  obtain c u where wc: "w = c # u" and c: "isWordChar c" and u: "\<forall>x \<in> set u. isWordChar x"
    using w by (cases w) (auto simp: uniformRun_def)
  have m: "matchesAt key prev (c # u @ rest) \<longleftrightarrow> ciEqual w key"
    using match_at_word_start [OF prev w rest key] wc by simp
  show ?thesis
  proof (cases "ciEqual w key")
    case True
    then have len: "length key = length w" by (simp add: ciEqual_length)
    have "charAt (c # u @ rest) (length key - 1) = Some (last w)"
      using len wc by (simp add: charAt_def nth_append last_conv_nth nth_Cons')
    moreover have "drop (length key) (c # u @ rest) = rest"
      using len wc by simp
    ultimately show ?thesis
      using True m wc by (simp add: rewriteToken_def)
  next
    case False
    have "replaceWord key val (Some c) (u @ rest) =
        u @ replaceWord key val (if u = [] then Some c else Some (last u)) rest"
      using c u by (intro replaceWord_inside_word) simp_all
    then show ?thesis
      using False m wc by (simp add: rewriteToken_def)
  qed
qed

lemma run_uniform:
  "uniformRun (isWordChar c) (c # takeWhile (\<lambda>x. isWordChar x = isWordChar c) cs)"
  by (auto simp: uniformRun_def dest: set_takeWhileD)

lemma run_rest:
  "dropWhile (\<lambda>x. isWordChar x = isWordChar c) cs = [] \<or>
   isWordChar (hd (dropWhile (\<lambda>x. isWordChar x = isWordChar c) cs)) \<noteq> isWordChar c"
  using hd_dropWhile [of "\<lambda>x. isWordChar x = isWordChar c" cs] by blast

lemma rewriteToken_separator:
  assumes "uniformRun True key" and "uniformRun False t"
  shows "rewriteToken key val t = t"
proof -
  have "\<not> ciEqual t key"
  proof
    assume e: "ciEqual t key"
    have "0 < length t" using assms(2) by (simp add: uniformRun_def)
    with e have "isWordChar (t ! 0) = isWordChar (key ! 0)" by (rule ciEqual_class)
    moreover have "length key = length t" using e by (simp add: ciEqual_length)
    ultimately show False
      using assms by (cases t; cases key) (auto simp: uniformRun_def)
  qed
  then show ?thesis by (simp add: rewriteToken_def)
qed

lemma replaceWord_tokens:
  assumes key: "uniformRun True key"
  shows "(s \<noteq> [] \<and> isWordChar (hd s) \<longrightarrow> \<not> isWordOpt prev) \<Longrightarrow>
         replaceWord key val prev s = concat (map (rewriteToken key val) (tokens s))"
proof (induction s arbitrary: prev rule: tokens.induct)
  case 1
  show ?case by simp
next
  case (2 c cs)
  let ?P = "\<lambda>x. isWordChar x = isWordChar c"
  let ?w = "c # takeWhile ?P cs"
  let ?rest = "dropWhile ?P cs"
  have split: "c # cs = ?w @ ?rest" by simp
  have uni: "uniformRun (isWordChar c) ?w" by (rule run_uniform)
  have rest: "?rest = [] \<or> isWordChar (hd ?rest) \<noteq> isWordChar c" by (rule run_rest)
  have lastw: "isWordChar (last ?w) = isWordChar c"
    using uni by (metis last_in_set uniformRun_def)
  have IH: "replaceWord key val (Some (last ?w)) ?rest =
      concat (map (rewriteToken key val) (tokens ?rest))"
  proof (rule "2.IH")
    show "?rest \<noteq> [] \<and> isWordChar (hd ?rest) \<longrightarrow> \<not> isWordOpt (Some (last ?w))"
      using rest lastw by auto
  qed
  have step: "replaceWord key val prev (?w @ ?rest) =
      rewriteToken key val ?w @ replaceWord key val (Some (last ?w)) ?rest"
  proof (cases "isWordChar c")
    case True
    have "\<not> isWordOpt prev" using "2.prems" True by simp
    moreover have "uniformRun True ?w" using uni True by simp
    moreover have "?rest = [] \<or> \<not> isWordChar (hd ?rest)" using rest True by simp
    ultimately show ?thesis using key by (rule replaceWord_word)
  next
    case False
    then have u: "uniformRun False ?w" using uni by simp
    then have "\<forall>x \<in> set ?w. \<not> isWordChar x" by (simp add: uniformRun_def)
    then have "replaceWord key val prev (?w @ ?rest) =
        ?w @ replaceWord key val (if ?w = [] then prev else Some (last ?w)) ?rest"
      by (rule replaceWord_separators [OF key])
    moreover have "rewriteToken key val ?w = ?w"
      using key u by (rule rewriteToken_separator)
    ultimately show ?thesis by simp
  qed
  have "replaceWord key val prev (c # cs) = replaceWord key val prev (?w @ ?rest)"
    by simp
  also have "\<dots> = rewriteToken key val ?w @ concat (map (rewriteToken key val) (tokens ?rest))"
    using step IH by (simp only:)
  also have "\<dots> = concat (map (rewriteToken key val) (tokens (c # cs)))"
    by simp
  finally show ?case .
qed

lemma tokens_run:
  assumes "uniformRun b u" and "v = [] \<or> isWordChar (hd v) \<noteq> b"
  shows "tokens (u @ v) = u # tokens v"
proof -
  obtain c u' where u: "u = c # u'" and c: "isWordChar c = b"
      and u': "\<forall>x \<in> set u'. isWordChar x = b"
    using assms(1) by (cases u) (auto simp: uniformRun_def)
  let ?P = "\<lambda>x. isWordChar x = isWordChar c"
  have "takeWhile ?P v = []" and "dropWhile ?P v = v"
    using assms(2) c by (cases v; simp)+
  then have "takeWhile ?P (u' @ v) = u'" and "dropWhile ?P (u' @ v) = v"
    using u' c by (simp_all add: takeWhile_append2 dropWhile_append2)
  then show ?thesis using u by simp
qed

lemma tokens_map:
  assumes f: "\<And>b t. uniformRun b t \<Longrightarrow> uniformRun b (f t)"
  shows "tokens (concat (map f (tokens s))) = map f (tokens s)"
proof (induction s rule: tokens.induct)
  case 1
  show ?case by simp
next
  case (2 c cs)
  let ?P = "\<lambda>x. isWordChar x = isWordChar c"
  let ?w = "c # takeWhile ?P cs"
  let ?rest = "dropWhile ?P cs"
  let ?v = "concat (map f (tokens ?rest))"
  have fw: "uniformRun (isWordChar c) (f ?w)"
    by (rule f) (rule run_uniform)
  have v: "?v = [] \<or> isWordChar (hd ?v) \<noteq> isWordChar c"
  proof (cases ?rest)
    case Nil
    have "tokens ?rest = []" by (simp only: Nil tokens.simps)
    then have "?v = []" by (simp only: list.map concat.simps)
    then show ?thesis ..
  next
    case (Cons r rs)
    let ?t = "r # takeWhile (\<lambda>x. isWordChar x = isWordChar r) rs"
    let ?more = "concat (map f (tokens (dropWhile (\<lambda>x. isWordChar x = isWordChar r) rs)))"
    have r: "isWordChar r \<noteq> isWordChar c"
      using run_rest [of c cs] by (simp only: Cons list.sel) simp
    have "uniformRun (isWordChar r) (f ?t)"
      by (rule f) (rule run_uniform)
    then have ne: "f ?t \<noteq> []" and "\<forall>x \<in> set (f ?t). isWordChar x = isWordChar r"
      unfolding uniformRun_def by blast+
    then have cl: "isWordChar (hd (f ?t)) = isWordChar r"
      using hd_in_set by blast
    have "?v = f ?t @ ?more"
      by (simp only: Cons tokens.simps list.map concat.simps)
    moreover have "hd (f ?t @ ?more) = hd (f ?t)"
      using ne by (rule hd_append2)
    ultimately have "hd ?v = hd (f ?t)"
      by (simp only:)
    with r cl show ?thesis by (simp only:) simp
  qed
  have run: "tokens (f ?w @ ?v) = f ?w # tokens ?v"
    using fw v by (rule tokens_run)
  have "tokens (concat (map f (tokens (c # cs)))) = tokens (f ?w @ ?v)"
    by (simp only: tokens.simps list.map concat.simps)
  also have "\<dots> = f ?w # map f (tokens ?rest)"
    by (simp only: run "2.IH")
  also have "\<dots> = map f (tokens (c # cs))"
    by (simp only: tokens.simps list.map)
  finally show ?case .
qed

lemma rewriteToken_uniform:
  assumes "uniformRun True key" and "uniformRun True val" and "uniformRun b t"
  shows "uniformRun b (rewriteToken key val t)"
proof (cases b)
  case True
  then show ?thesis using assms by (simp add: rewriteToken_def)
next
  case False
  then have "rewriteToken key val t = t"
    using assms by (simp add: rewriteToken_separator)
  then show ?thesis using assms(3) by simp
qed

text \<open>One rule with a single-word value, applied to a string given by its tokens.\<close>

lemma rule_on_tokens:
  assumes "uniformRun True key"
    and "\<And>b t. uniformRun b t \<Longrightarrow> uniformRun b (f t)"
  shows "replaceWord key val None (concat (map f (tokens s))) =
           concat (map (rewriteToken key val \<circ> f) (tokens s))"
proof -
  have "replaceWord key val None (concat (map f (tokens s))) =
      concat (map (rewriteToken key val) (tokens (concat (map f (tokens s)))))"
    using assms(1) by (rule replaceWord_tokens) simp
  also have "tokens (concat (map f (tokens s))) = map f (tokens s)"
    using assms(2) by (rule tokens_map)
  finally show ?thesis by simp
qed

lemma ciEqual_other_length: "length a \<noteq> length b \<Longrightarrow> ciEqual a b = False"
  using ciEqual_length by blast

lemma ciEqual_Blvd:
  "ciEqual ''Road'' ''Blvd'' = False" "ciEqual ''Lane'' ''Blvd'' = False"
  by (simp_all add: ciEqual_def canonicalize_def)

lemma rewriteToken_if:
  "rewriteToken key val (if c then x else y) =
     (if c then rewriteToken key val x else rewriteToken key val y)"
  by simp

lemma rewriteToken_fixed:
  "rewriteToken ''Ln'' v ''Road'' = ''Road''"
  "rewriteToken ''Dr'' v ''Road'' = ''Road''" "rewriteToken ''Dr'' v ''Lane'' = ''Lane''"
  "rewriteToken ''St'' v ''Road'' = ''Road''" "rewriteToken ''St'' v ''Lane'' = ''Lane''"
  "rewriteToken ''St'' v ''Drive'' = ''Drive''"
  "rewriteToken ''Ave'' v ''Road'' = ''Road''" "rewriteToken ''Ave'' v ''Lane'' = ''Lane''"
  "rewriteToken ''Ave'' v ''Drive'' = ''Drive''" "rewriteToken ''Ave'' v ''Street'' = ''Street''"
  "rewriteToken ''Blvd'' v ''Road'' = ''Road''" "rewriteToken ''Blvd'' v ''Lane'' = ''Lane''"
  "rewriteToken ''Blvd'' v ''Drive'' = ''Drive''" "rewriteToken ''Blvd'' v ''Street'' = ''Street''"
  "rewriteToken ''Blvd'' v ''Avenue'' = ''Avenue''"
  "rewriteToken ''Hwy'' v ''Road'' = ''Road''" "rewriteToken ''Hwy'' v ''Lane'' = ''Lane''"
  "rewriteToken ''Hwy'' v ''Drive'' = ''Drive''" "rewriteToken ''Hwy'' v ''Street'' = ''Street''"
  "rewriteToken ''Hwy'' v ''Avenue'' = ''Avenue''"
  "rewriteToken ''Hwy'' v ''Boulevard'' = ''Boulevard''"
  "rewriteToken ''CR'' v ''Road'' = ''Road''" "rewriteToken ''CR'' v ''Lane'' = ''Lane''"
  "rewriteToken ''CR'' v ''Drive'' = ''Drive''" "rewriteToken ''CR'' v ''Street'' = ''Street''"
  "rewriteToken ''CR'' v ''Avenue'' = ''Avenue''"
  "rewriteToken ''CR'' v ''Boulevard'' = ''Boulevard''"
  "rewriteToken ''CR'' v ''Highway'' = ''Highway''"
  by (simp_all add: rewriteToken_def ciEqual_other_length ciEqual_Blvd)

lemma expandWord_chain:
  "rewriteToken ''CR'' ''County Road''
     (rewriteToken ''Hwy'' ''Highway''
       (rewriteToken ''Blvd'' ''Boulevard''
         (rewriteToken ''Ave'' ''Avenue''
           (rewriteToken ''St'' ''Street''
             (rewriteToken ''Dr'' ''Drive''
               (rewriteToken ''Ln'' ''Lane''
                 (rewriteToken ''Rd'' ''Road'' t))))))) = expandWord t"
proof -
  let ?r1 = "rewriteToken ''Rd'' ''Road'' t"
  let ?r2 = "rewriteToken ''Ln'' ''Lane'' ?r1"
  let ?r3 = "rewriteToken ''Dr'' ''Drive'' ?r2"
  let ?r4 = "rewriteToken ''St'' ''Street'' ?r3"
  let ?r5 = "rewriteToken ''Ave'' ''Avenue'' ?r4"
  let ?r6 = "rewriteToken ''Blvd'' ''Boulevard'' ?r5"
  let ?r7 = "rewriteToken ''Hwy'' ''Highway'' ?r6"
  let ?r8 = "rewriteToken ''CR'' ''County Road'' ?r7"
  have e1: "?r1 =
      (if ciEqual t ''Rd'' then ''Road''
       else t)"
    by (simp only: rewriteToken_def)
  have e2: "?r2 =
      (if ciEqual t ''Rd'' then ''Road''
       else if ciEqual t ''Ln'' then ''Lane''
       else t)"
    by (simp only: e1 rewriteToken_if rewriteToken_fixed) (simp only: rewriteToken_def)
  have e3: "?r3 =
      (if ciEqual t ''Rd'' then ''Road''
       else if ciEqual t ''Ln'' then ''Lane''
       else if ciEqual t ''Dr'' then ''Drive''
       else t)"
    by (simp only: e2 rewriteToken_if rewriteToken_fixed) (simp only: rewriteToken_def)
  have e4: "?r4 =
      (if ciEqual t ''Rd'' then ''Road''
       else if ciEqual t ''Ln'' then ''Lane''
       else if ciEqual t ''Dr'' then ''Drive''
       else if ciEqual t ''St'' then ''Street''
       else t)"
    by (simp only: e3 rewriteToken_if rewriteToken_fixed) (simp only: rewriteToken_def)
  have e5: "?r5 =
      (if ciEqual t ''Rd'' then ''Road''
       else if ciEqual t ''Ln'' then ''Lane''
       else if ciEqual t ''Dr'' then ''Drive''
       else if ciEqual t ''St'' then ''Street''
       else if ciEqual t ''Ave'' then ''Avenue''
       else t)"
    by (simp only: e4 rewriteToken_if rewriteToken_fixed) (simp only: rewriteToken_def)
  have e6: "?r6 =
      (if ciEqual t ''Rd'' then ''Road''
       else if ciEqual t ''Ln'' then ''Lane''
       else if ciEqual t ''Dr'' then ''Drive''
       else if ciEqual t ''St'' then ''Street''
       else if ciEqual t ''Ave'' then ''Avenue''
       else if ciEqual t ''Blvd'' then ''Boulevard''
       else t)"
    by (simp only: e5 rewriteToken_if rewriteToken_fixed) (simp only: rewriteToken_def)
  have e7: "?r7 =
      (if ciEqual t ''Rd'' then ''Road''
       else if ciEqual t ''Ln'' then ''Lane''
       else if ciEqual t ''Dr'' then ''Drive''
       else if ciEqual t ''St'' then ''Street''
       else if ciEqual t ''Ave'' then ''Avenue''
       else if ciEqual t ''Blvd'' then ''Boulevard''
       else if ciEqual t ''Hwy'' then ''Highway''
       else t)"
    by (simp only: e6 rewriteToken_if rewriteToken_fixed) (simp only: rewriteToken_def)
  have e8: "?r8 =
      (if ciEqual t ''Rd'' then ''Road''
       else if ciEqual t ''Ln'' then ''Lane''
       else if ciEqual t ''Dr'' then ''Drive''
       else if ciEqual t ''St'' then ''Street''
       else if ciEqual t ''Ave'' then ''Avenue''
       else if ciEqual t ''Blvd'' then ''Boulevard''
       else if ciEqual t ''Hwy'' then ''Highway''
       else if ciEqual t ''CR'' then ''County Road''
       else t)"
    by (simp only: e7 rewriteToken_if rewriteToken_fixed) (simp only: rewriteToken_def)
  show ?thesis
    by (simp only: e8 expandWord_def)
qed

lemma table_words:
  "uniformRun True ''Rd''" "uniformRun True ''Ln''" "uniformRun True ''Dr''"
  "uniformRun True ''St''" "uniformRun True ''Ave''" "uniformRun True ''Blvd''"
  "uniformRun True ''Hwy''" "uniformRun True ''CR''"
  "uniformRun True ''Road''" "uniformRun True ''Lane''" "uniformRun True ''Drive''"
  "uniformRun True ''Street''" "uniformRun True ''Avenue''" "uniformRun True ''Boulevard''"
  "uniformRun True ''Highway''"
  by (simp_all add: uniformRun_def isWordChar_def)

lemma single_word_rules:
  "applyReplacements replacements s =
     replaceWord ''#'' [] None
       (replaceWord ''Us Highway'' ''US Hwy'' None
         (replaceWord ''Vz CR'' ''Vz County Road'' None
           (concat (map expandWord (tokens s)))))"
proof -
  let ?f1 = "rewriteToken ''Rd'' ''Road''"
  let ?f2 = "rewriteToken ''Ln'' ''Lane'' \<circ> ?f1"
  let ?f3 = "rewriteToken ''Dr'' ''Drive'' \<circ> ?f2"
  let ?f4 = "rewriteToken ''St'' ''Street'' \<circ> ?f3"
  let ?f5 = "rewriteToken ''Ave'' ''Avenue'' \<circ> ?f4"
  let ?f6 = "rewriteToken ''Blvd'' ''Boulevard'' \<circ> ?f5"
  let ?f7 = "rewriteToken ''Hwy'' ''Highway'' \<circ> ?f6"
  let ?f8 = "rewriteToken ''CR'' ''County Road'' \<circ> ?f7"
  have u1: "uniformRun b (?f1 t)" if "uniformRun b t" for b t
    using that by (simp add: rewriteToken_uniform table_words)
  have u2: "uniformRun b (?f2 t)" if "uniformRun b t" for b t
    using u1 [OF that] by (simp add: rewriteToken_uniform table_words)
  have u3: "uniformRun b (?f3 t)" if "uniformRun b t" for b t
    using u2 [OF that] by (simp add: rewriteToken_uniform table_words)
  have u4: "uniformRun b (?f4 t)" if "uniformRun b t" for b t
    using u3 [OF that] by (simp add: rewriteToken_uniform table_words)
  have u5: "uniformRun b (?f5 t)" if "uniformRun b t" for b t
    using u4 [OF that] by (simp add: rewriteToken_uniform table_words)
  have u6: "uniformRun b (?f6 t)" if "uniformRun b t" for b t
    using u5 [OF that] by (simp add: rewriteToken_uniform table_words)
  have u7: "uniformRun b (?f7 t)" if "uniformRun b t" for b t
    using u6 [OF that] by (simp add: rewriteToken_uniform table_words)
  have s1: "replaceWord ''Rd'' ''Road'' None s = concat (map ?f1 (tokens s))"
    by (rule replaceWord_tokens) (simp_all add: table_words)
  have s2: "replaceWord ''Ln'' ''Lane'' None (concat (map ?f1 (tokens s))) =
      concat (map ?f2 (tokens s))"
    by (rule rule_on_tokens) (simp_all add: table_words u1)
  have s3: "replaceWord ''Dr'' ''Drive'' None (concat (map ?f2 (tokens s))) =
      concat (map ?f3 (tokens s))"
    by (rule rule_on_tokens [OF table_words(3) u2])
  have s4: "replaceWord ''St'' ''Street'' None (concat (map ?f3 (tokens s))) =
      concat (map ?f4 (tokens s))"
    by (rule rule_on_tokens [OF table_words(4) u3])
  have s5: "replaceWord ''Ave'' ''Avenue'' None (concat (map ?f4 (tokens s))) =
      concat (map ?f5 (tokens s))"
    by (rule rule_on_tokens [OF table_words(5) u4])
  have s6: "replaceWord ''Blvd'' ''Boulevard'' None (concat (map ?f5 (tokens s))) =
      concat (map ?f6 (tokens s))"
    by (rule rule_on_tokens [OF table_words(6) u5])
  have s7: "replaceWord ''Hwy'' ''Highway'' None (concat (map ?f6 (tokens s))) =
      concat (map ?f7 (tokens s))"
    by (rule rule_on_tokens [OF table_words(7) u6])
  have s8: "replaceWord ''CR'' ''County Road'' None (concat (map ?f7 (tokens s))) =
      concat (map ?f8 (tokens s))"
    by (rule rule_on_tokens [OF table_words(8) u7])
  have f8: "?f8 = expandWord"
    by (rule ext) (simp only: o_apply expandWord_chain)
  have "applyReplacements replacements s =
     replaceWord ''#'' [] None
       (replaceWord ''Us Highway'' ''US Hwy'' None
         (replaceWord ''Vz CR'' ''Vz County Road'' None
           (concat (map ?f8 (tokens s)))))"
    by (simp only: replacements_def applyReplacements.simps s1 s2 s3 s4 s5 s6 s7 s8)
  then show ?thesis by (simp only: f8)
qed

text \<open>
  C5, counterexample. The address holds the table token \<^verbatim>\<open>Hwy\<close> as a whole word.
  The rule for \<^verbatim>\<open>Hwy\<close> rewrites it to \<^verbatim>\<open>Highway\<close>, and the later rule for
  \<^verbatim>\<open>Us Highway\<close> rewrites that to \<^verbatim>\<open>US Hwy\<close>: the output holds the token, not
  its expansion.
\<close>

theorem normalize_counterexample:
  "normalizeAddress (Some ''100 Us Hwy 59'') = Some ''100 US Hwy 59''"
  by code_simp

text \<open>
  C5, as amended. For a non-empty address, the normalizer trims it, replaces every
  whole word that equals one of the eight single-word tokens (Rd, Ln, Dr, St, Ave,
  Blvd, Hwy, CR) up to case by the expansion of that token, leaves every other word
  and every run of separators as it is (so a word that only contains a token is not
  touched), and then applies the rules for \<^verbatim>\<open>Vz CR\<close>, \<^verbatim>\<open>Us Highway\<close> and
  \<^verbatim>\<open>#\<close> to that result, in this order.
\<close>

theorem normalize_whole_words:
  assumes "a \<noteq> []"
  shows "normalizeAddress (Some a) =
    Some (replaceWord ''#'' [] None
           (replaceWord ''Us Highway'' ''US Hwy'' None
             (replaceWord ''Vz CR'' ''Vz County Road'' None
               (concat (map expandWord (tokens (trim a)))))))"
  using assms by (simp add: normalizeAddress_def single_word_rules)

text \<open>
  C5, witness: \<^verbatim>\<open>Rd\<close> as a whole word is expanded, \<^verbatim>\<open>Broadway\<close> is left as it
  is.
\<close>

theorem normalize_whole_words_witness:
  "''12 Broadway Rd'' \<noteq> []
   \<and> normalizeAddress (Some ''12 Broadway Rd'') = Some ''12 Broadway Road''"
proof -
  have "replaceWord ''#'' [] None
          (replaceWord ''Us Highway'' ''US Hwy'' None
            (replaceWord ''Vz CR'' ''Vz County Road'' None
              (concat (map expandWord (tokens (trim ''12 Broadway Rd''))))))
        = ''12 Broadway Road''"
    by code_simp
  then show ?thesis
    using normalize_whole_words [of "''12 Broadway Rd''"] by simp
qed

subsection \<open>C6: a lookup that fails\<close>

text \<open>
  C6, counterexample. The lookup of the only listing throws. The skip record holds
  the listing key and the address text of the listing; it holds none of the reason
  texts the claim names.
\<close>

theorem lookup_failure_counterexample:
  "skippedHouses (addHousesToMap_flat throwingWorld
      [(''m1'', \<lparr>houseAddress = Some ''9 Elm St''\<rparr>)] initial) =
     [\<lparr>skipId = ''m1'', skipAddress = ''9 Elm St''\<rparr>]
   \<and> ''9 Elm St'' \<noteq> ''lookup failed'' \<and> ''9 Elm St'' \<noteq> ''no address''"
  by (simp add: addHousesToMap_flat_def processEntry_flat_def geocodeAddress_def
        normalize_examples throwingWorld_def initial_def Let_def)

text \<open>
  C6, as amended. When the lookup of a listing with a non-empty address throws or
  finds no candidate, the round sends its one request and appends a skip record
  that carries the listing key and the address text of the listing (the code stores
  no reason); nothing else changes, and the loop goes on with the remaining
  listings.
\<close>

theorem lookup_failure_skipped:
  assumes "houseAddress h = Some a" and "a \<noteq> []"
    and "geocode w (normalizeAddress (Some a)) = GeoThrows
         \<or> geocode w (normalizeAddress (Some a)) = GeoResults []"
  shows "processEntry_flat w (mlsId, h) st =
           st\<lparr>requests := requests st @ [normalizeAddress (Some a)],
              skippedHouses := skippedHouses st @ [\<lparr>skipId = mlsId, skipAddress = a\<rparr>]\<rparr>
    \<and> forEntries_flat w ((mlsId, h) # rest) st =
        forEntries_flat w rest
          (st\<lparr>requests := requests st @ [normalizeAddress (Some a)],
              skippedHouses := skippedHouses st @ [\<lparr>skipId = mlsId, skipAddress = a\<rparr>]\<rparr>)"
  using assms
  by (auto simp: processEntry_flat_def geocodeAddress_def Let_def)

text \<open>
  C6, witness: the lookup of \<^verbatim>\<open>9 Elm St\<close> throws; the listing is skipped and the
  next listing is still placed.
\<close>

theorem lookup_failure_skipped_witness:
  "geocode throwingWorld (normalizeAddress (Some ''9 Elm St'')) = GeoThrows
   \<and> processEntry_flat throwingWorld (''m1'', \<lparr>houseAddress = Some ''9 Elm St''\<rparr>) initial =
       initial\<lparr>requests := requests initial @ [Some ''9 Elm Street''],
               skippedHouses := skippedHouses initial
                 @ [\<lparr>skipId = ''m1'', skipAddress = ''9 Elm St''\<rparr>]\<rparr>
   \<and> successCount (forEntries_flat throwingWorld
        [(''m1'', \<lparr>houseAddress = Some ''9 Elm St''\<rparr>),
         (''m2'', \<lparr>houseAddress = Some ''1 Main St''\<rparr>)] initial) = 1"
proof -
  let ?skipped = "initial\<lparr>requests := requests initial @ [Some ''9 Elm Street''],
      skippedHouses := skippedHouses initial
        @ [\<lparr>skipId = ''m1'', skipAddress = ''9 Elm St''\<rparr>]\<rparr>"
  have g: "geocode throwingWorld (normalizeAddress (Some ''9 Elm St'')) = GeoThrows"
    by (simp add: normalize_examples throwingWorld_def)
  have both: "processEntry_flat throwingWorld
        (''m1'', \<lparr>houseAddress = Some ''9 Elm St''\<rparr>) initial = ?skipped
      \<and> forEntries_flat throwingWorld
        [(''m1'', \<lparr>houseAddress = Some ''9 Elm St''\<rparr>),
         (''m2'', \<lparr>houseAddress = Some ''1 Main St''\<rparr>)] initial =
        forEntries_flat throwingWorld [(''m2'', \<lparr>houseAddress = Some ''1 Main St''\<rparr>)]
          ?skipped"
    using g lookup_failure_skipped [of "\<lparr>houseAddress = Some ''9 Elm St''\<rparr>" "''9 Elm St''"
        throwingWorld "''m1''" initial "[(''m2'', \<lparr>houseAddress = Some ''1 Main St''\<rparr>)]"]
    by (simp add: normalize_examples)
  have next_one: "successCount (forEntries_flat throwingWorld
        [(''m2'', \<lparr>houseAddress = Some ''1 Main St''\<rparr>)] ?skipped) = 1"
    by (simp add: processEntry_flat_count placed_flat_def normalize_examples
          throwingWorld_def initial_def)
  from g both next_one show ?thesis by (simp only:)
qed

subsection \<open>C7: the glyph of a marker\<close>






subsection \<open>C8: the end of a pass\<close>




subsection \<open>C9: the outcome at the start of a pass\<close>

text \<open>
  C9. The outcome of a pass is built from nothing but the listings of that pass.
  After the reset of lines 114 to 116 and any number of rounds of the loop, the
  success count is the number of listings placed in those rounds and the skip list
  holds exactly their skip records; before the first round that is 0 and the empty
  list. So a pass over at least one listing ends with the count and the skip
  records of its own listings, whatever count and skip list the refs held before.
  The pass that the component runs from \<^verbatim>\<open>onMounted\<close> ends the same way for every
  collection, the empty one included: over zero listings the count is 0 and the skip
  list is empty. (The early return of lines 109 to 112 comes before the reset; the
  refs then still hold what the setup code gave them.)
\<close>

theorem outcome_rebuilt_each_pass:
  "successCount (forEntries_nested w pre
       (st\<lparr>bounds := [], successCount := 0, skippedHouses := []\<rparr>)) =
     length (filter (placed_nested w) pre)
   \<and> skippedHouses (forEntries_nested w pre
       (st\<lparr>bounds := [], successCount := 0, skippedHouses := []\<rparr>)) =
     concat (map skipOf_nested pre)
   \<and> (houseEntries \<noteq> [] \<longrightarrow>
        successCount (addHousesToMap_nested w houseEntries st) =
          length (filter (placed_nested w) houseEntries)
        \<and> skippedHouses (addHousesToMap_nested w houseEntries st) =
          concat (map skipOf_nested houseEntries))
   \<and> successCount (onMounted_nested ses w houses) =
       (if hasApiKey ses \<and> sdkLoads ses then length (filter (placed_nested w) houses) else 0)
   \<and> skippedHouses (onMounted_nested ses w houses) =
       (if hasApiKey ses \<and> sdkLoads ses then concat (map skipOf_nested houses) else [])"
  by (simp add: forEntries_nested_count forEntries_nested_skips
        addHousesToMap_nested_outcome onMounted_nested_def initMap_outcome initial_fields)

text \<open>
  C9, witness. The pass of a mounted component over zero listings ends with the
  count 0 and an empty skip list. Started on refs that hold an earlier count of 2
  and an earlier skip record, a pass over one listing that is placed and one without
  a postal code ends with the count 1 and the one skip record of its own.
\<close>

theorem outcome_rebuilt_each_pass_witness:
  "successCount (onMounted_nested readySession okWorld []) = 0
   \<and> skippedHouses (onMounted_nested readySession okWorld []) = []
   \<and> successCount (addHousesToMap_nested okWorld
       [(''z1'', listingAt mainStreet (JNum 30) (JNum (-95))),
        (''z2'', listingAt noZipcode (JNum 30) (JNum (-95)))] staleState) = 1
   \<and> skippedHouses (addHousesToMap_nested okWorld
       [(''z1'', listingAt mainStreet (JNum 30) (JNum (-95))),
        (''z2'', listingAt noZipcode (JNum 30) (JNum (-95)))] staleState) =
       [\<lparr>skipId = ''z2'', skipAddress = ''Invalid or missing address''\<rparr>]"
proof -
  have p1: "placed_nested okWorld (''z1'', listingAt mainStreet (JNum 30) (JNum (-95)))"
    by (simp add: placed_nested_def listingAt_def propertyAt_def mainStreet_def okWorld_def)
  have p2: "\<not> placed_nested okWorld (''z2'', listingAt noZipcode (JNum 30) (JNum (-95)))"
    by (simp add: placed_nested_def listingAt_def propertyAt_def noZipcode_def)
  have s1: "skipOf_nested (''z1'', listingAt mainStreet (JNum 30) (JNum (-95))) = []"
    by (simp add: skipOf_nested_def listingAt_def propertyAt_def mainStreet_def)
  have s2: "skipOf_nested (''z2'', listingAt noZipcode (JNum 30) (JNum (-95))) =
      [\<lparr>skipId = ''z2'', skipAddress = ''Invalid or missing address''\<rparr>]"
    by (simp add: skipOf_nested_def listingAt_def propertyAt_def noZipcode_def)
  show ?thesis
    using outcome_rebuilt_each_pass [where ses = readySession and w = okWorld
        and houses = "[]" and st = staleState and pre = "[]"
        and houseEntries = "[(''z1'', listingAt mainStreet (JNum 30) (JNum (-95))),
                            (''z2'', listingAt noZipcode (JNum 30) (JNum (-95)))]"]
    by (simp add: p1 p2 s1 s2 readySession_def)
qed


subsection \<open>C10: a coordinate that is present and falsy\<close>

text \<open>
  C10. In the nested variant, a listing that has its four address parts and whose
  latitude or longitude is falsy (the number 0, or absent, null, false or the empty
  string) is not placed: its round of the loop appends a skip record with the full
  address of the listing and changes nothing else. The check is on the truthiness
  of the two values, not on the presence of the fields.
\<close>

theorem falsy_coordinate_skipped:
  assumes "property hdata = Some h" and "address h = Some a"
    and "truthyStr (streetAddress a)" and "truthyStr (city a)"
    and "truthyStr (state a)" and "truthyStr (zipcode a)"
    and "\<not> truthy (latitude h) \<or> \<not> truthy (longitude h)"
  shows "processEntry_nested w (zpid, hdata) st =
           st\<lparr>skippedHouses := skippedHouses st
                 @ [\<lparr>skipId = zpid, skipAddress = fullAddress a\<rparr>]\<rparr>"
  using assms by (auto simp: processEntry_nested_def embeddedCoords_def)

text \<open>
  C10, witness: latitude 0 with longitude -95 and a complete address.
\<close>

theorem falsy_coordinate_skipped_witness:
  "\<not> truthy (JNum 0)
   \<and> processEntry_nested okWorld
       (''z1'', listingAt mainStreet (JNum 0) (JNum (-95))) initial =
     initial\<lparr>skippedHouses :=
               [\<lparr>skipId = ''z1'', skipAddress = ''1 Main St, Austin, TX 78701''\<rparr>]\<rparr>"
  using falsy_coordinate_skipped [of "listingAt mainStreet (JNum 0) (JNum (-95))"
      "propertyAt mainStreet (JNum 0) (JNum (-95))" mainStreet okWorld "''z1''" initial]
  by (simp add: listingAt_def propertyAt_def mainStreet_def fullAddress_def initial_def)

end
